theory Spec2Isabelle
  imports Main
begin

section \<open>The font engine binding of python-mapnik\<close>

text \<open>
  The source file \<^verbatim>\<open>src/mapnik_font_engine.cpp\<close> defines one function,
  \<^verbatim>\<open>export_font_engine\<close>, which binds the class \<^verbatim>\<open>mapnik::freetype_engine\<close>
  under the name \<^verbatim>\<open>FontEngine\<close> and gives it four static definitions, each a lambda
  that calls one static member function of the engine. The engine itself comes from the
  header \<^verbatim>\<open>mapnik/font_engine_freetype.hpp\<close> and is not part of the file: it is a
  parameter of everything below.
\<close>

subsection \<open>The engine, as the binding sees it\<close>

text \<open>
  The three static member functions the lambdas call. Each runs on the engine's
  process-wide state \<open>'s\<close>, may change it, and either returns or throws (\<open>Inl\<close>) a
  value of the engine's own exception type \<open>'e\<close>.
  \<^item> \<^verbatim>\<open>bool register_font(std::string const&)\<close>
  \<^item> \<^verbatim>\<open>bool register_fonts(std::string const&, bool)\<close>
  \<^item> \<^verbatim>\<open>std::vector<std::string> face_names()\<close>
\<close>

record ('s, 'e) freetype_engine =
  engine_register_font :: "string \<Rightarrow> 's \<Rightarrow> ('e + bool) \<times> 's"
  engine_register_fonts :: "string \<Rightarrow> bool \<Rightarrow> 's \<Rightarrow> ('e + bool) \<times> 's"
  engine_face_names :: "'s \<Rightarrow> ('e + string list) \<times> 's"

subsection \<open>The host side: Python values and list objects\<close>

text \<open>
  The values that cross the boundary of this binding: strings and booleans (immutable,
  so modelled by value) and references to list objects.

  A \<^verbatim>\<open>std::string\<close> is a sequence of bytes (\<open>string\<close>, a list of 8-bit characters).
  A Python string is a sequence of code points; it is represented here by its UTF-8
  encoding, so \<open>PyStr bs\<close> stands for the Python string whose encoding is \<open>bs\<close>.
  Passing a Python string to a \<^verbatim>\<open>std::string const&\<close> parameter encodes it, which is
  the identity on this representation. Running out of memory is not modelled.
\<close>

datatype py_value = PyStr string | PyBool bool | PyListRef nat

subsection \<open>From a C++ string to a Python string\<close>

text \<open>
  \<^verbatim>\<open>out.append(name)\<close> takes a \<^verbatim>\<open>std::string\<close>, which the binding library first
  turns into a Python string by decoding its bytes as UTF-8, strictly: bytes that are not
  well-formed UTF-8 make the conversion throw (Python's \<^verbatim>\<open>UnicodeDecodeError\<close>).
  Well-formed are exactly the byte sequences of the Unicode standard's table: one byte
  \<open>00..7F\<close>; two bytes \<open>C2..DF\<close>, \<open>80..BF\<close>; three bytes \<open>E0..EF\<close> then two
  continuation bytes, the first narrowed to \<open>A0..BF\<close> after \<open>E0\<close> (no overlong form)
  and to \<open>80..9F\<close> after \<open>ED\<close> (no surrogate); four bytes \<open>F0..F4\<close> then three
  continuation bytes, the first narrowed to \<open>90..BF\<close> after \<open>F0\<close> and to
  \<open>80..8F\<close> after \<open>F4\<close> (nothing above \<open>U+10FFFF\<close>).
\<close>

definition byte_in :: "nat \<Rightarrow> nat \<Rightarrow> char \<Rightarrow> bool" where
  "byte_in lo hi c = (lo \<le> of_char c \<and> (of_char c :: nat) \<le> hi)"

definition second_of_three :: "char \<Rightarrow> char \<Rightarrow> bool" where
  "second_of_three a b =
     (if byte_in 0xE0 0xE0 a then byte_in 0xA0 0xBF b
      else if byte_in 0xED 0xED a then byte_in 0x80 0x9F b
      else byte_in 0x80 0xBF b)"

definition second_of_four :: "char \<Rightarrow> char \<Rightarrow> bool" where
  "second_of_four a b =
     (if byte_in 0xF0 0xF0 a then byte_in 0x90 0xBF b
      else if byte_in 0xF4 0xF4 a then byte_in 0x80 0x8F b
      else byte_in 0x80 0xBF b)"

fun valid_utf8 :: "string \<Rightarrow> bool" where
  "valid_utf8 [] = True"
| "valid_utf8 (a # rest) =
     (if byte_in 0x00 0x7F a then valid_utf8 rest
      else if byte_in 0xC2 0xDF a then
        (case rest of
           b # rest1 \<Rightarrow> byte_in 0x80 0xBF b \<and> valid_utf8 rest1
         | _ \<Rightarrow> False)
      else if byte_in 0xE0 0xEF a then
        (case rest of
           b # c # rest2 \<Rightarrow> second_of_three a b \<and> byte_in 0x80 0xBF c \<and> valid_utf8 rest2
         | _ \<Rightarrow> False)
      else if byte_in 0xF0 0xF4 a then
        (case rest of
           b # c # d # rest3 \<Rightarrow>
             second_of_four a b \<and> byte_in 0x80 0xBF c \<and> byte_in 0x80 0xBF d \<and> valid_utf8 rest3
         | _ \<Rightarrow> False)
      else False)"

text \<open>The conversion of one \<^verbatim>\<open>std::string\<close>: the Python string, or \<open>None\<close> when it throws.\<close>

definition cast_string :: "string \<Rightarrow> py_value option" where
  "cast_string name = (if valid_utf8 name then Some (PyStr name) else None)"

subsection \<open>List objects\<close>

text \<open>
  A list object is mutable and has an identity, so it lives in a store: the address of a
  list is its index in the store, \<open>Some xs\<close> is a live list with the elements \<open>xs\<close>,
  \<open>None\<close> a list that has been destroyed. Addresses are never reused.
\<close>

type_synonym py_heap = "py_value list option list"

definition list_at :: "py_heap \<Rightarrow> nat \<Rightarrow> py_value list option" where
  "list_at h a = (if a < length h then h ! a else None)"

text \<open>\<^verbatim>\<open>py::list out;\<close> constructs a new, empty list object.\<close>

definition new_list :: "py_heap \<Rightarrow> nat \<times> py_heap" where
  "new_list h = (length h, h @ [Some []])"

text \<open>
  \<^verbatim>\<open>out.append(name)\<close> adds one element at the end of the list object \<open>out\<close>.
  The handle \<open>out\<close> of the source always refers to a live list; on any other
  address the store is left as it is.
\<close>

definition list_append :: "nat \<Rightarrow> py_value \<Rightarrow> py_heap \<Rightarrow> py_heap" where
  "list_append out v h =
     (case list_at h out of
        Some xs \<Rightarrow> h[out := Some (xs @ [v])]
      | None \<Rightarrow> h)"

text \<open>
  The destructor of a \<^verbatim>\<open>py::list\<close> handle that was never returned drops the
  only reference to the list object, which destroys it.
\<close>

definition destroy_list :: "nat \<Rightarrow> py_heap \<Rightarrow> py_heap" where
  "destroy_list out h = (if out < length h then h[out := None] else h)"

text \<open>What a call runs on: the engine's state and the host's list objects.\<close>

record 's world =
  engine_state :: 's
  host_heap :: py_heap

subsection \<open>The four lambdas\<close>

text \<open>
  \<^verbatim>\<open>[](std::string const& file_name) { return freetype_engine::register_font(file_name); }\<close>
\<close>

definition register_font ::
  "('s, 'e) freetype_engine \<Rightarrow> string \<Rightarrow> 's \<Rightarrow> ('e + bool) \<times> 's" where
  "register_font E file_name s = engine_register_font E file_name s"

text \<open>
  \<^verbatim>\<open>[](std::string const& dir) { return freetype_engine::register_fonts(dir, false); }\<close>
\<close>

definition register_fonts_dir ::
  "('s, 'e) freetype_engine \<Rightarrow> string \<Rightarrow> 's \<Rightarrow> ('e + bool) \<times> 's" where
  "register_fonts_dir E dir s = engine_register_fonts E dir False s"

text \<open>
  \<^verbatim>\<open>[](std::string const& dir, bool recurse) { return freetype_engine::register_fonts(dir, recurse); }\<close>
\<close>

definition register_fonts_dir_recurse ::
  "('s, 'e) freetype_engine \<Rightarrow> string \<Rightarrow> bool \<Rightarrow> 's \<Rightarrow> ('e + bool) \<times> 's" where
  "register_fonts_dir_recurse E dir recurse s = engine_register_fonts E dir recurse s"

text \<open>
  What a lambda of this file can throw: an exception of the engine, which passes through
  it, or the binding library's \<^verbatim>\<open>error_already_set\<close> from a conversion that failed.
\<close>

datatype 'e cpp_exception = Engine_exception 'e | Error_already_set

text \<open>
  The loop \<^verbatim>\<open>for (auto const& name : ...) { out.append(name); }\<close>: one
  \<^verbatim>\<open>append\<close> per element of the engine's vector, first to last. Each
  \<^verbatim>\<open>std::string\<close> is converted and then appended; the first one whose conversion
  throws ends the loop (\<open>Inl\<close>, with the store as it is at that point: the names before
  it have been appended).
\<close>

fun append_names :: "nat \<Rightarrow> string list \<Rightarrow> py_heap \<Rightarrow> py_heap + py_heap" where
  "append_names out [] h = Inr h"
| "append_names out (name # rest) h =
     (case cast_string name of
        None \<Rightarrow> Inl h
      | Some v \<Rightarrow> append_names out rest (list_append out v h))"

text \<open>
  \<^verbatim>\<open>[]() { py::list out; for (auto const& name : freetype_engine::face_names()) { out.append(name); } return out; }\<close>

  The list is constructed first, then the engine is called. When the engine throws, the
  stack unwinds through \<open>out\<close>, which destroys the list. Otherwise the loop runs: when a
  conversion throws in it, the stack unwinds through \<open>out\<close> in the same way, after the
  engine has returned and changed its state; when the loop ends, the handle is returned.
\<close>

definition face_names ::
  "('s, 'e) freetype_engine \<Rightarrow> 's world \<Rightarrow> ('e cpp_exception + nat) \<times> 's world" where
  "face_names E w =
     (case new_list (host_heap w) of
        (out, h) \<Rightarrow>
          (case engine_face_names E (engine_state w) of
             (Inl e, s') \<Rightarrow>
               (Inl (Engine_exception e), \<lparr>engine_state = s', host_heap = destroy_list out h\<rparr>)
           | (Inr names, s') \<Rightarrow>
               (case append_names out names h of
                  Inl h' \<Rightarrow>
                    (Inl Error_already_set, \<lparr>engine_state = s', host_heap = destroy_list out h'\<rparr>)
                | Inr h' \<Rightarrow>
                    (Inr out, \<lparr>engine_state = s', host_heap = h'\<rparr>))))"

subsection \<open>The class the function exports\<close>

text \<open>
  A bound C++ function, by its signature. The three signatures of the file:
  \<^verbatim>\<open>bool (std::string const&)\<close>, \<^verbatim>\<open>bool (std::string const&, bool)\<close> and
  \<^verbatim>\<open>py::list ()\<close>.
\<close>

datatype ('s, 'e) cpp_function =
    Fn_string "string \<Rightarrow> 's \<Rightarrow> ('e + bool) \<times> 's"
  | Fn_string_bool "string \<Rightarrow> bool \<Rightarrow> 's \<Rightarrow> ('e + bool) \<times> 's"
  | Fn_no_args "'s world \<Rightarrow> ('e cpp_exception + nat) \<times> 's world"

datatype def_kind = StaticMethod | InstanceMethod

record ('s, 'e) method_def =
  def_name :: string
  def_kind :: def_kind
  def_impl :: "('s, 'e) cpp_function"

text \<open>
  A bound class: its Python name, the parameter lists of the constructors bound with
  \<^verbatim>\<open>py::init\<close>, and its method definitions in the order they were added.
\<close>

datatype cpp_type = StdString | Bool

record ('s, 'e) py_class =
  class_name :: string
  class_inits :: "cpp_type list list"
  class_defs :: "('s, 'e) method_def list"

text \<open>\<^verbatim>\<open>py::class_<freetype_engine>(m, "FontEngine")\<close>: a class with nothing bound yet.\<close>

definition new_class :: "string \<Rightarrow> ('s, 'e) py_class" where
  "new_class name = \<lparr>class_name = name, class_inits = [], class_defs = []\<rparr>"

text \<open>\<^verbatim>\<open>cls.def_static(name, f)\<close> adds a static definition after the ones already there.\<close>

definition def_static ::
  "string \<Rightarrow> ('s, 'e) cpp_function \<Rightarrow> ('s, 'e) py_class \<Rightarrow> ('s, 'e) py_class" where
  "def_static name f cls =
     cls\<lparr>class_defs := class_defs cls @ [\<lparr>def_name = name, def_kind = StaticMethod, def_impl = f\<rparr>]\<rparr>"

text \<open>
  \<^verbatim>\<open>export_font_engine\<close>, statement by statement. The result is the class object the
  function leaves in the module \<open>m\<close>.
\<close>

definition export_font_engine :: "('s, 'e) freetype_engine \<Rightarrow> ('s, 'e) py_class" where
  "export_font_engine E =
     (def_static ''face_names'' (Fn_no_args (face_names E))
       (def_static ''register_fonts'' (Fn_string_bool (register_fonts_dir_recurse E))
         (def_static ''register_fonts'' (Fn_string (register_fonts_dir E))
           (def_static ''register_font'' (Fn_string (register_font E))
             (new_class ''FontEngine'')))))"

subsection \<open>Calling a static definition from Python\<close>

text \<open>
  What the caller can receive as a failure: an exception the engine threw, carried
  across the boundary with its content; one of the two failures of the call itself (no
  definition of that name; no overload takes these arguments); or the failure of a
  conversion inside a lambda.
\<close>

datatype 'e py_error = EngineError 'e | TypeError | AttributeError | UnicodeDecodeError

text \<open>
  A C++ exception leaving a lambda becomes the Python exception it stands for:
  \<^verbatim>\<open>error_already_set\<close> holds the \<^verbatim>\<open>UnicodeDecodeError\<close> of the failed decoding.
\<close>

fun raised :: "'e cpp_exception \<Rightarrow> 'e py_error" where
  "raised (Engine_exception e) = EngineError e"
| "raised Error_already_set = UnicodeDecodeError"

text \<open>
  One overload applied to the arguments of a call. \<open>None\<close> when the arguments do not
  fit the signature (their number, or the type of one of them), so that the next overload
  is tried. A C++ \<^verbatim>\<open>bool\<close> result becomes a Python boolean, a \<^verbatim>\<open>py::list\<close> a
  reference to its list object, a thrown exception a raised one.
\<close>

fun invoke ::
  "('s, 'e) cpp_function \<Rightarrow> py_value list \<Rightarrow> 's world \<Rightarrow>
     (('e py_error + py_value) \<times> 's world) option" where
  "invoke (Fn_string f) [PyStr a] w =
     (case f a (engine_state w) of
        (r, s') \<Rightarrow> Some (map_sum EngineError PyBool r, w\<lparr>engine_state := s'\<rparr>))"
| "invoke (Fn_string_bool f) [PyStr a, PyBool b] w =
     (case f a b (engine_state w) of
        (r, s') \<Rightarrow> Some (map_sum EngineError PyBool r, w\<lparr>engine_state := s'\<rparr>))"
| "invoke (Fn_no_args f) [] w =
     (case f w of (r, w') \<Rightarrow> Some (map_sum raised PyListRef r, w'))"
| "invoke _ _ _ = None"

text \<open>The overloads of one name are tried in the order they were defined.\<close>

fun try_overloads ::
  "('s, 'e) cpp_function list \<Rightarrow> py_value list \<Rightarrow> 's world \<Rightarrow>
     ('e py_error + py_value) \<times> 's world" where
  "try_overloads [] args w = (Inl TypeError, w)"
| "try_overloads (f # fs) args w =
     (case invoke f args w of
        Some r \<Rightarrow> r
      | None \<Rightarrow> try_overloads fs args w)"

definition overloads :: "('s, 'e) py_class \<Rightarrow> string \<Rightarrow> ('s, 'e) cpp_function list" where
  "overloads cls name =
     map def_impl (filter (\<lambda>d. def_name d = name \<and> def_kind d = StaticMethod) (class_defs cls))"

text \<open>\<^verbatim>\<open>FontEngine.name(args)\<close>, called on the class itself, with no instance.\<close>

definition call_static ::
  "('s, 'e) py_class \<Rightarrow> string \<Rightarrow> py_value list \<Rightarrow> 's world \<Rightarrow>
     ('e py_error + py_value) \<times> 's world" where
  "call_static cls name args w =
     (case overloads cls name of
        [] \<Rightarrow> (Inl AttributeError, w)
      | fs \<Rightarrow> try_overloads fs args w)"

text \<open>
  \<^verbatim>\<open>FontEngine(args)\<close>: constructing an instance needs a bound constructor whose
  parameters the arguments fit. \<open>None\<close> is the failure to construct.
\<close>

fun fits :: "cpp_type \<Rightarrow> py_value \<Rightarrow> bool" where
  "fits StdString (PyStr a) = True"
| "fits Bool (PyBool b) = True"
| "fits _ _ = False"

definition construct :: "('s, 'e) py_class \<Rightarrow> py_value list \<Rightarrow> cpp_type list option" where
  "construct cls args = find (\<lambda>ps. list_all2 fits ps args) (class_inits cls)"

text \<open>The parameter types of a bound function, read off its C++ signature.\<close>

fun params :: "('s, 'e) cpp_function \<Rightarrow> cpp_type list" where
  "params (Fn_string f) = [StdString]"
| "params (Fn_string_bool f) = [StdString, Bool]"
| "params (Fn_no_args f) = []"

subsection \<open>Observing the calls the binding makes\<close>

text \<open>
  To say which engine routine a call reaches, and with which arguments, an engine is
  wrapped so that it keeps a log: the wrapped engine behaves as the engine does and
  appends every call it receives to the log beside its state.
\<close>

datatype engine_call =
    Call_register_font string
  | Call_register_fonts string bool
  | Call_face_names

definition logged :: "('s, 'e) freetype_engine \<Rightarrow> ('s \<times> engine_call list, 'e) freetype_engine" where
  "logged E =
     \<lparr>engine_register_font = (\<lambda>file_name (s, calls).
        case engine_register_font E file_name s of
          (r, s') \<Rightarrow> (r, (s', calls @ [Call_register_font file_name]))),
      engine_register_fonts = (\<lambda>dir recurse (s, calls).
        case engine_register_fonts E dir recurse s of
          (r, s') \<Rightarrow> (r, (s', calls @ [Call_register_fonts dir recurse]))),
      engine_face_names = (\<lambda>(s, calls).
        case engine_face_names E s of
          (r, s') \<Rightarrow> (r, (s', calls @ [Call_face_names])))\<rparr>"

text \<open>The calls a wrapped engine has received so far.\<close>

definition calls_logged :: "('s \<times> engine_call list) world \<Rightarrow> engine_call list" where
  "calls_logged w = snd (engine_state w)"

subsection \<open>A reference engine\<close>

text \<open>
  Modelled from the spec: the font engine (\<^verbatim>\<open>mapnik::freetype_engine\<close>) is an external
  collaborator whose code is not in the repository. The spec describes it as the owner of
  "the registry of currently known font faces", with \<^verbatim>\<open>register_font(path) -> bool\<close>
  ("true = at least one face registered from the file"),
  \<^verbatim>\<open>register_fonts(path, recurse) -> bool\<close> ("operating over every eligible file found
  in the directory (and its subdirectories if recurse is true)") and
  \<^verbatim>\<open>face_names() -> sequence of string\<close> ("the engine's current registered-face
  enumeration"). What the engine does with a path it can register nothing from
  ("exception vs. false") the spec leaves to the engine: it is the parameter \<open>no_font\<close>.

  The disk gives what each path names: a font file with the faces it contains, a file
  that is not a font, or a directory with its entries.
\<close>

datatype fs_node =
    FontFile "string list"
  | OtherFile
  | Directory "(string \<times> fs_node) list"

text \<open>
  Modelled from the spec: the state the engine owns ("which fonts are registered, which
  faces exist"), with the disk it reads.
\<close>

record font_state =
  disk :: "(string \<times> fs_node) list"
  registry :: "string list"

text \<open>
  Modelled from the spec: the registry is the "registered-font-set", enumerated in the
  order the faces were first registered.
\<close>

definition add_face :: "string \<Rightarrow> string list \<Rightarrow> string list" where
  "add_face face reg = (if face \<in> set reg then reg else reg @ [face])"

definition add_faces :: "string list \<Rightarrow> string list \<Rightarrow> string list" where
  "add_faces faces reg = fold add_face faces reg"

text \<open>
  Modelled from the spec: the faces of "every eligible file found in the directory (and
  its subdirectories if recurse is true)". A subdirectory is entered only when
  \<open>recurse\<close> is set.
\<close>

fun found_faces :: "bool \<Rightarrow> fs_node \<Rightarrow> string list" where
  "found_faces recurse (FontFile faces) = faces"
| "found_faces recurse OtherFile = []"
| "found_faces recurse (Directory entries) =
     (if recurse then concat (map (\<lambda>entry. found_faces recurse (snd entry)) entries) else [])"

definition scan_directory :: "bool \<Rightarrow> (string \<times> fs_node) list \<Rightarrow> string list" where
  "scan_directory recurse entries = concat (map (\<lambda>entry. found_faces recurse (snd entry)) entries)"

text \<open>
  Modelled from the spec: the engine's \<^verbatim>\<open>register_font(path) -> bool\<close>, "true = at least
  one face registered from the file"; its side effect is on the registry alone. A path
  that names no font file gets the engine's \<open>no_font\<close> answer and changes nothing.
\<close>

definition ref_register_font ::
  "('e + bool) \<Rightarrow> string \<Rightarrow> font_state \<Rightarrow> ('e + bool) \<times> font_state" where
  "ref_register_font no_font file_name s =
     (case map_of (disk s) file_name of
        Some (FontFile faces) \<Rightarrow>
          (Inr (faces \<noteq> []), s\<lparr>registry := add_faces faces (registry s)\<rparr>)
      | Some OtherFile \<Rightarrow> (no_font, s)
      | Some (Directory entries) \<Rightarrow> (no_font, s)
      | None \<Rightarrow> (no_font, s))"

text \<open>
  Modelled from the spec: the engine's \<^verbatim>\<open>register_fonts(path, recurse) -> bool\<close>, the
  "identical contract to register_font, but operating over every eligible file found in
  the directory". A path that names no directory gets the \<open>no_font\<close> answer.
\<close>

definition ref_register_fonts ::
  "('e + bool) \<Rightarrow> string \<Rightarrow> bool \<Rightarrow> font_state \<Rightarrow> ('e + bool) \<times> font_state" where
  "ref_register_fonts no_font dir recurse s =
     (case map_of (disk s) dir of
        Some (Directory entries) \<Rightarrow>
          (Inr (scan_directory recurse entries \<noteq> []),
           s\<lparr>registry := add_faces (scan_directory recurse entries) (registry s)\<rparr>)
      | Some (FontFile faces) \<Rightarrow> (no_font, s)
      | Some OtherFile \<Rightarrow> (no_font, s)
      | None \<Rightarrow> (no_font, s))"

text \<open>
  Modelled from the spec: the engine's \<^verbatim>\<open>face_names() -> sequence of string\<close>, "the
  engine's current registered-face enumeration"; it reads the registry and changes
  nothing.
\<close>

definition ref_face_names :: "font_state \<Rightarrow> ('e + string list) \<times> font_state" where
  "ref_face_names s = (Inr (registry s), s)"

text \<open>
  Modelled from the spec: the three routines of the "collaborator interface consumed",
  as one engine.
\<close>

definition reference_engine :: "('e + bool) \<Rightarrow> (font_state, 'e) freetype_engine" where
  "reference_engine no_font =
     \<lparr>engine_register_font = ref_register_font no_font,
      engine_register_fonts = ref_register_fonts no_font,
      engine_face_names = ref_face_names\<rparr>"

text \<open>
  A small disk for the examples: one font file beside a directory that holds a second
  font file in a subdirectory.
\<close>

definition sample_disk :: "(string \<times> fs_node) list" where
  "sample_disk =
     [(''test.ttf'', FontFile [''TestFace'']),
      (''fonts'', Directory
         [(''a.ttf'', FontFile [''Alpha'']),
          (''readme.txt'', OtherFile),
          (''sub'', Directory [(''b.ttf'', FontFile [''Beta''])])])]"

definition sample_world :: "font_state world" where
  "sample_world =
     \<lparr>engine_state = \<lparr>disk = sample_disk, registry = [''Base'']\<rparr>,
      host_heap = [Some [PyStr ''kept'']]\<rparr>"

section \<open>Properties\<close>

subsection \<open>The exported table\<close>

lemma export_font_engine_defs:
  "class_defs (export_font_engine E) =
     [\<lparr>def_name = ''register_font'', def_kind = StaticMethod, def_impl = Fn_string (register_font E)\<rparr>,
      \<lparr>def_name = ''register_fonts'', def_kind = StaticMethod, def_impl = Fn_string (register_fonts_dir E)\<rparr>,
      \<lparr>def_name = ''register_fonts'', def_kind = StaticMethod,
        def_impl = Fn_string_bool (register_fonts_dir_recurse E)\<rparr>,
      \<lparr>def_name = ''face_names'', def_kind = StaticMethod, def_impl = Fn_no_args (face_names E)\<rparr>]"
  by (simp add: export_font_engine_def def_static_def new_class_def)

subsection \<open>Well-formed UTF-8\<close>

lemma valid_utf8_examples:
  "valid_utf8 ''TestFace''"
  "valid_utf8 [CHR 0xC3, CHR 0xA9]"
  "valid_utf8 [CHR 0xE2, CHR 0x82, CHR 0xAC]"
  "valid_utf8 [CHR 0xED, CHR 0x9F, CHR 0xBF]"
  "valid_utf8 [CHR 0xF0, CHR 0x9F, CHR 0x98, CHR 0x80]"
  "valid_utf8 [CHR 0xF4, CHR 0x8F, CHR 0xBF, CHR 0xBF]"
  "\<not> valid_utf8 [CHR 0xFF, CHR 0xFE]"
  "\<not> valid_utf8 [CHR 0x80]"
  "\<not> valid_utf8 [CHR 0xC3, CHR 0x28]"
  "\<not> valid_utf8 [CHR 0xC0, CHR 0x80]"
  "\<not> valid_utf8 [CHR 0xE2, CHR 0x82]"
  "\<not> valid_utf8 [CHR 0xE0, CHR 0x80, CHR 0x80]"
  "\<not> valid_utf8 [CHR 0xED, CHR 0xA0, CHR 0x80]"
  "\<not> valid_utf8 [CHR 0xF0, CHR 0x8F, CHR 0xBF, CHR 0xBF]"
  "\<not> valid_utf8 [CHR 0xF4, CHR 0x90, CHR 0x80, CHR 0x80]"
  "\<not> valid_utf8 [CHR 0xF5, CHR 0x80, CHR 0x80, CHR 0x80]"
  by (simp_all add: byte_in_def second_of_three_def second_of_four_def)

lemma valid_utf8_ascii: "list_all (byte_in 0x00 0x7F) name \<Longrightarrow> valid_utf8 name"
  by (induction name) simp_all

subsection \<open>List objects and the copying loop\<close>

lemma list_at_new_list: "list_at (h @ [Some xs]) (length h) = Some xs"
  by (simp add: list_at_def)

lemma list_append_live:
  "list_at h out = Some xs \<Longrightarrow> list_append out v h = h[out := Some (xs @ [v])]"
  by (simp add: list_append_def)

lemma list_at_update:
  "out < length h \<Longrightarrow> list_at (h[out := x]) a = (if a = out then x else list_at h a)"
  by (auto simp: list_at_def)

lemma list_at_live_valid: "list_at h out = Some xs \<Longrightarrow> out < length h"
  by (simp add: list_at_def split: if_splits)

lemma append_names_live:
  "list_all valid_utf8 names \<Longrightarrow> list_at h out = Some xs \<Longrightarrow>
   append_names out names h = Inr (h[out := Some (xs @ map PyStr names)])"
proof (induction names arbitrary: h xs)
  case Nil
  then have "out < length h" by (simp add: list_at_live_valid)
  with Nil have "h ! out = Some xs" by (simp add: list_at_def)
  then have "h[out := Some xs] = h" by (metis list_update_id)
  then show ?case by simp
next
  case (Cons name rest)
  have valid: "out < length h" using Cons.prems(2) by (rule list_at_live_valid)
  have name: "cast_string name = Some (PyStr name)" and rest: "list_all valid_utf8 rest"
    using Cons.prems(1) by (simp_all add: cast_string_def)
  let ?h = "h[out := Some (xs @ [PyStr name])]"
  have step: "list_append out (PyStr name) h = ?h"
    using Cons.prems(2) by (rule list_append_live)
  have "list_at ?h out = Some (xs @ [PyStr name])"
    using valid by (simp add: list_at_update)
  with rest
  have "append_names out rest ?h = Inr (?h[out := Some ((xs @ [PyStr name]) @ map PyStr rest)])"
    by (rule Cons.IH)
  with step name show ?case by simp
qed

lemma append_names_undecodable:
  "\<not> list_all valid_utf8 names \<Longrightarrow> list_at h out = Some xs \<Longrightarrow>
   \<exists>ys. append_names out names h = Inl (h[out := Some ys])"
proof (induction names arbitrary: h xs)
  case Nil
  then show ?case by simp
next
  case (Cons name rest)
  have valid: "out < length h" using Cons.prems(2) by (rule list_at_live_valid)
  show ?case
  proof (cases "valid_utf8 name")
    case False
    have "h ! out = Some xs" using Cons.prems(2) valid by (simp add: list_at_def)
    then have "h[out := Some xs] = h" by (metis list_update_id)
    with False show ?thesis by (auto simp: cast_string_def intro: exI [of _ xs])
  next
    case True
    then have name: "cast_string name = Some (PyStr name)" and rest: "\<not> list_all valid_utf8 rest"
      using Cons.prems(1) by (simp_all add: cast_string_def)
    let ?h = "h[out := Some (xs @ [PyStr name])]"
    have step: "list_append out (PyStr name) h = ?h"
      using Cons.prems(2) by (rule list_append_live)
    have "list_at ?h out = Some (xs @ [PyStr name])"
      using valid by (simp add: list_at_update)
    with rest obtain ys where "append_names out rest ?h = Inl (?h[out := Some ys])"
      using Cons.IH by blast
    with step name have "append_names out (name # rest) h = Inl (h[out := Some ys])"
      by simp
    then show ?thesis by blast
  qed
qed

lemma append_names_new_list:
  assumes "list_all valid_utf8 names"
  shows "append_names (length h) names (h @ [Some []]) = Inr (h @ [Some (map PyStr names)])"
proof -
  have "append_names (length h) names (h @ [Some []]) =
          Inr ((h @ [Some []])[length h := Some ([] @ map PyStr names)])"
    using assms by (rule append_names_live) (rule list_at_new_list)
  then show ?thesis by simp
qed

lemma append_names_new_list_undecodable:
  assumes "\<not> list_all valid_utf8 names"
  shows "\<exists>ys. append_names (length h) names (h @ [Some []]) = Inl (h @ [Some ys])"
proof -
  obtain ys where "append_names (length h) names (h @ [Some []]) =
          Inl ((h @ [Some []])[length h := Some ys])"
    using append_names_undecodable [OF assms list_at_new_list] by blast
  then show ?thesis by simp
qed

lemma face_names_returns:
  "engine_face_names E (engine_state w) = (Inr names, s') \<Longrightarrow> list_all valid_utf8 names \<Longrightarrow>
   face_names E w =
     (Inr (length (host_heap w)),
      \<lparr>engine_state = s', host_heap = host_heap w @ [Some (map PyStr names)]\<rparr>)"
  by (simp add: face_names_def new_list_def append_names_new_list)

lemma face_names_undecodable:
  assumes "engine_face_names E (engine_state w) = (Inr names, s')"
      and "\<not> list_all valid_utf8 names"
  shows "face_names E w =
     (Inl Error_already_set, \<lparr>engine_state = s', host_heap = host_heap w @ [None]\<rparr>)"
proof -
  obtain ys where "append_names (length (host_heap w)) names (host_heap w @ [Some []]) =
      Inl (host_heap w @ [Some ys])"
    using append_names_new_list_undecodable [OF assms(2)] by blast
  with assms(1) show ?thesis
    by (simp add: face_names_def new_list_def destroy_list_def)
qed

lemma face_names_throws:
  "engine_face_names E (engine_state w) = (Inl e, s') \<Longrightarrow>
   face_names E w =
     (Inl (Engine_exception e), \<lparr>engine_state = s', host_heap = host_heap w @ [None]\<rparr>)"
  by (simp add: face_names_def new_list_def destroy_list_def)

subsection \<open>What each Python call runs\<close>

lemma overloads_register_font:
  "overloads (export_font_engine E) ''register_font'' = [Fn_string (register_font E)]"
  by (simp add: overloads_def export_font_engine_defs)

lemma overloads_register_fonts:
  "overloads (export_font_engine E) ''register_fonts'' =
     [Fn_string (register_fonts_dir E), Fn_string_bool (register_fonts_dir_recurse E)]"
  by (simp add: overloads_def export_font_engine_defs)

lemma overloads_face_names:
  "overloads (export_font_engine E) ''face_names'' = [Fn_no_args (face_names E)]"
  by (simp add: overloads_def export_font_engine_defs)

lemma overloads_other:
  "name \<noteq> ''register_font'' \<Longrightarrow> name \<noteq> ''register_fonts'' \<Longrightarrow> name \<noteq> ''face_names'' \<Longrightarrow>
   overloads (export_font_engine E) name = []"
  by (simp add: overloads_def export_font_engine_defs)

lemma call_register_font:
  "call_static (export_font_engine E) ''register_font'' [PyStr file_name] w =
     (case engine_register_font E file_name (engine_state w) of
        (r, s') \<Rightarrow> (map_sum EngineError PyBool r, w\<lparr>engine_state := s'\<rparr>))"
  by (simp add: call_static_def overloads_register_font register_font_def split: prod.splits)

lemma call_register_fonts_dir:
  "call_static (export_font_engine E) ''register_fonts'' [PyStr dir] w =
     (case engine_register_fonts E dir False (engine_state w) of
        (r, s') \<Rightarrow> (map_sum EngineError PyBool r, w\<lparr>engine_state := s'\<rparr>))"
  by (simp add: call_static_def overloads_register_fonts register_fonts_dir_def split: prod.splits)

lemma call_register_fonts_dir_recurse:
  "call_static (export_font_engine E) ''register_fonts'' [PyStr dir, PyBool recurse] w =
     (case engine_register_fonts E dir recurse (engine_state w) of
        (r, s') \<Rightarrow> (map_sum EngineError PyBool r, w\<lparr>engine_state := s'\<rparr>))"
  by (simp add: call_static_def overloads_register_fonts register_fonts_dir_recurse_def
      split: prod.splits)

lemma call_face_names:
  "call_static (export_font_engine E) ''face_names'' [] w =
     (case face_names E w of (r, w') \<Rightarrow> (map_sum raised PyListRef r, w'))"
  by (simp add: call_static_def overloads_face_names split: prod.splits)

lemma call_face_names_returns:
  "engine_face_names E (engine_state w) = (Inr names, s') \<Longrightarrow> list_all valid_utf8 names \<Longrightarrow>
   call_static (export_font_engine E) ''face_names'' [] w =
     (Inr (PyListRef (length (host_heap w))),
      \<lparr>engine_state = s', host_heap = host_heap w @ [Some (map PyStr names)]\<rparr>)"
  by (simp add: call_face_names face_names_returns)

lemma call_face_names_undecodable:
  "engine_face_names E (engine_state w) = (Inr names, s') \<Longrightarrow> \<not> list_all valid_utf8 names \<Longrightarrow>
   call_static (export_font_engine E) ''face_names'' [] w =
     (Inl UnicodeDecodeError, \<lparr>engine_state = s', host_heap = host_heap w @ [None]\<rparr>)"
  by (simp add: call_face_names face_names_undecodable)

lemma call_face_names_throws:
  "engine_face_names E (engine_state w) = (Inl e, s') \<Longrightarrow>
   call_static (export_font_engine E) ''face_names'' [] w =
     (Inl (EngineError e), \<lparr>engine_state = s', host_heap = host_heap w @ [None]\<rparr>)"
  by (simp add: call_face_names face_names_throws)

lemma map_sum_Inl_iff:
  "map_sum EngineError g r = Inl x \<longleftrightarrow> (\<exists>e. x = EngineError e \<and> r = Inl e)"
  by (cases r) auto

lemma fst_call_face_names:
  "fst (call_static (export_font_engine E) ''face_names'' [] w) =
     (case fst (engine_face_names E (engine_state w)) of
        Inl e \<Rightarrow> Inl (EngineError e)
      | Inr names \<Rightarrow>
          if list_all valid_utf8 names then Inr (PyListRef (length (host_heap w)))
          else Inl UnicodeDecodeError)"
proof -
  obtain r s' where en: "engine_face_names E (engine_state w) = (r, s')"
    by (cases "engine_face_names E (engine_state w)")
  show ?thesis
  proof (cases r)
    case (Inl e)
    with en show ?thesis by (simp add: call_face_names_throws)
  next
    case (Inr names)
    with en show ?thesis
      by (cases "list_all valid_utf8 names")
        (simp_all add: call_face_names_returns call_face_names_undecodable)
  qed
qed

lemma snd_call_face_names:
  "engine_state (snd (call_static (export_font_engine E) ''face_names'' [] w)) =
     snd (engine_face_names E (engine_state w))"
proof -
  obtain r s' where en: "engine_face_names E (engine_state w) = (r, s')"
    by (cases "engine_face_names E (engine_state w)")
  show ?thesis
  proof (cases r)
    case (Inl e)
    with en show ?thesis by (simp add: call_face_names_throws)
  next
    case (Inr names)
    with en show ?thesis
      by (cases "list_all valid_utf8 names")
        (simp_all add: call_face_names_returns call_face_names_undecodable)
  qed
qed

lemma invoke_string_arity: "length args \<noteq> 1 \<Longrightarrow> invoke (Fn_string f) args w = None"
  by (cases "(Fn_string f, args, w)" rule: invoke.cases) auto

lemma invoke_string_bool_arity:
  "length args \<noteq> 2 \<Longrightarrow> invoke (Fn_string_bool f) args w = None"
  by (cases "(Fn_string_bool f, args, w)" rule: invoke.cases) auto

lemma register_fonts_wrong_arity:
  assumes "length args \<noteq> 1" "length args \<noteq> 2"
  shows "call_static (export_font_engine E) ''register_fonts'' args w = (Inl TypeError, w)"
  using assms
  by (simp add: call_static_def overloads_register_fonts invoke_string_arity
      invoke_string_bool_arity)

lemma map_sum_engine_error:
  "map_sum EngineError g r \<noteq> Inl TypeError" "map_sum EngineError g r \<noteq> Inl AttributeError"
  by (cases r; simp)+

subsection \<open>What the engine receives\<close>

lemma logged_register_font:
  "engine_register_font (logged E) file_name (s, calls) =
     (fst (engine_register_font E file_name s),
      (snd (engine_register_font E file_name s), calls @ [Call_register_font file_name]))"
  by (simp add: logged_def split: prod.splits)

lemma logged_register_fonts:
  "engine_register_fonts (logged E) dir recurse (s, calls) =
     (fst (engine_register_fonts E dir recurse s),
      (snd (engine_register_fonts E dir recurse s), calls @ [Call_register_fonts dir recurse]))"
  by (simp add: logged_def split: prod.splits)

lemma logged_face_names:
  "engine_face_names (logged E) (s, calls) =
     (fst (engine_face_names E s), (snd (engine_face_names E s), calls @ [Call_face_names]))"
  by (simp add: logged_def split: prod.splits)

lemma calls_register_font:
  "calls_logged (snd (call_static (export_font_engine (logged E)) ''register_font'' [PyStr file_name] v)) =
     calls_logged v @ [Call_register_font file_name]"
proof -
  obtain s calls where st: "engine_state v = (s, calls)" by (cases "engine_state v")
  show ?thesis
    by (simp add: call_register_font st logged_register_font calls_logged_def)
qed

lemma calls_register_fonts_dir:
  "calls_logged (snd (call_static (export_font_engine (logged E)) ''register_fonts'' [PyStr dir] v)) =
     calls_logged v @ [Call_register_fonts dir False]"
proof -
  obtain s calls where st: "engine_state v = (s, calls)" by (cases "engine_state v")
  show ?thesis
    by (simp add: call_register_fonts_dir st logged_register_fonts calls_logged_def)
qed

lemma calls_register_fonts_dir_recurse:
  "calls_logged (snd (call_static (export_font_engine (logged E)) ''register_fonts''
      [PyStr dir, PyBool recurse] v)) =
     calls_logged v @ [Call_register_fonts dir recurse]"
proof -
  obtain s calls where st: "engine_state v = (s, calls)" by (cases "engine_state v")
  show ?thesis
    by (simp add: call_register_fonts_dir_recurse st logged_register_fonts calls_logged_def)
qed

lemma calls_face_names:
  "calls_logged (snd (call_static (export_font_engine (logged E)) ''face_names'' [] v)) =
     calls_logged v @ [Call_face_names]"
proof -
  obtain s calls where st: "engine_state v = (s, calls)" by (cases "engine_state v")
  show ?thesis
    by (simp add: calls_logged_def snd_call_face_names st logged_face_names)
qed

subsection \<open>The reference engine's registry and directory scan\<close>

lemma set_add_face: "set (add_face face reg) = insert face (set reg)"
  by (auto simp: add_face_def)

lemma set_add_faces: "set (add_faces faces reg) = set reg \<union> set faces"
  unfolding add_faces_def
  by (induction faces arbitrary: reg) (auto simp: set_add_face)

lemma found_faces_recurse: "set (found_faces False node) \<subseteq> set (found_faces True node)"
  by (cases node) simp_all

lemma scan_directory_recurse:
  "set (scan_directory False entries) \<subseteq> set (scan_directory True entries)"
  unfolding scan_directory_def
  using found_faces_recurse by fastforce

subsection \<open>Registration of one file\<close>

text \<open>
  Claim C1. For every string \<open>file_name\<close>, \<^verbatim>\<open>register_font(file_name)\<close> forwards
  \<open>file_name\<close> unchanged to the engine's single-file registration routine and returns
  exactly the boolean the engine returns for that call. Three statements: the lambda is
  the engine's routine at the same argument; the Python call \<^verbatim>\<open>FontEngine.register_font\<close>
  gives the engine's outcome (its boolean as a Python boolean, or its exception) and
  leaves the world as the engine left its state; and the engine receives exactly one
  call, \<^verbatim>\<open>register_font\<close> with that string.
\<close>

theorem register_font_forwards:
  "register_font E file_name s = engine_register_font E file_name s
   \<and> call_static (export_font_engine E) ''register_font'' [PyStr file_name] w =
       (map_sum EngineError PyBool (fst (engine_register_font E file_name (engine_state w))),
        w\<lparr>engine_state := snd (engine_register_font E file_name (engine_state w))\<rparr>)
   \<and> calls_logged (snd (call_static (export_font_engine (logged E)) ''register_font''
        [PyStr file_name] v)) = calls_logged v @ [Call_register_font file_name]"
proof (intro conjI)
  show "register_font E file_name s = engine_register_font E file_name s"
    by (simp add: register_font_def)
  show "call_static (export_font_engine E) ''register_font'' [PyStr file_name] w =
       (map_sum EngineError PyBool (fst (engine_register_font E file_name (engine_state w))),
        w\<lparr>engine_state := snd (engine_register_font E file_name (engine_state w))\<rparr>)"
    by (simp add: call_register_font split: prod.splits)
  show "calls_logged (snd (call_static (export_font_engine (logged E)) ''register_font''
        [PyStr file_name] v)) = calls_logged v @ [Call_register_font file_name]"
    by (rule calls_register_font)
qed

theorem register_font_forwards_witness:
  "call_static (export_font_engine (reference_engine (Inr False :: string + bool)))
      ''register_font'' [PyStr ''test.ttf''] sample_world =
     (Inr (PyBool True),
      \<lparr>engine_state = \<lparr>disk = sample_disk, registry = [''Base'', ''TestFace'']\<rparr>,
       host_heap = [Some [PyStr ''kept'']]\<rparr>)"
  using register_font_forwards [of "reference_engine (Inr False :: string + bool)" "''test.ttf''"
      _ sample_world]
  by (simp add: reference_engine_def ref_register_font_def sample_world_def sample_disk_def
      add_faces_def add_face_def)

subsection \<open>Registration of a directory\<close>

text \<open>
  Claim C2. For every directory string, the one-argument call \<^verbatim>\<open>register_fonts(D)\<close> is
  observably equivalent to the two-argument call \<^verbatim>\<open>register_fonts(D, false)\<close>: the two
  lambdas agree, the two Python calls give the same result and the same world after the
  call (so the same engine state, and with it the same registered faces), and in both the
  engine receives the one call \<^verbatim>\<open>register_fonts(D, false)\<close>, its flag a boolean.
\<close>

theorem register_fonts_default_recurse:
  "register_fonts_dir E dir s = register_fonts_dir_recurse E dir False s
   \<and> call_static (export_font_engine E) ''register_fonts'' [PyStr dir] w =
       call_static (export_font_engine E) ''register_fonts'' [PyStr dir, PyBool False] w
   \<and> calls_logged (snd (call_static (export_font_engine (logged E)) ''register_fonts''
        [PyStr dir] v)) = calls_logged v @ [Call_register_fonts dir False]
   \<and> calls_logged (snd (call_static (export_font_engine (logged E)) ''register_fonts''
        [PyStr dir, PyBool False] v)) = calls_logged v @ [Call_register_fonts dir False]"
proof (intro conjI)
  show "register_fonts_dir E dir s = register_fonts_dir_recurse E dir False s"
    by (simp add: register_fonts_dir_def register_fonts_dir_recurse_def)
  show "call_static (export_font_engine E) ''register_fonts'' [PyStr dir] w =
       call_static (export_font_engine E) ''register_fonts'' [PyStr dir, PyBool False] w"
    by (simp only: call_register_fonts_dir call_register_fonts_dir_recurse)
  show "calls_logged (snd (call_static (export_font_engine (logged E)) ''register_fonts''
        [PyStr dir] v)) = calls_logged v @ [Call_register_fonts dir False]"
    by (rule calls_register_fonts_dir)
  show "calls_logged (snd (call_static (export_font_engine (logged E)) ''register_fonts''
        [PyStr dir, PyBool False] v)) = calls_logged v @ [Call_register_fonts dir False]"
    by (rule calls_register_fonts_dir_recurse)
qed

theorem register_fonts_default_recurse_witness:
  "call_static (export_font_engine (reference_engine (Inr False :: string + bool)))
      ''register_fonts'' [PyStr ''fonts''] sample_world =
     (Inr (PyBool True),
      \<lparr>engine_state = \<lparr>disk = sample_disk, registry = [''Base'', ''Alpha'']\<rparr>,
       host_heap = [Some [PyStr ''kept'']]\<rparr>)
   \<and> call_static (export_font_engine (reference_engine (Inr False :: string + bool)))
      ''register_fonts'' [PyStr ''fonts'', PyBool False] sample_world =
     (Inr (PyBool True),
      \<lparr>engine_state = \<lparr>disk = sample_disk, registry = [''Base'', ''Alpha'']\<rparr>,
       host_heap = [Some [PyStr ''kept'']]\<rparr>)"
proof -
  have two: "call_static (export_font_engine (reference_engine (Inr False :: string + bool)))
      ''register_fonts'' [PyStr ''fonts'', PyBool False] sample_world =
     (Inr (PyBool True),
      \<lparr>engine_state = \<lparr>disk = sample_disk, registry = [''Base'', ''Alpha'']\<rparr>,
       host_heap = [Some [PyStr ''kept'']]\<rparr>)"
    by (simp add: call_register_fonts_dir_recurse reference_engine_def ref_register_fonts_def
        sample_world_def sample_disk_def scan_directory_def add_faces_def add_face_def)
  with register_fonts_default_recurse
    [of "reference_engine (Inr False :: string + bool)" "''fonts''" _ sample_world]
  show ?thesis by simp
qed

text \<open>
  Claim C9. For every directory string \<open>dir\<close> and boolean \<open>recurse\<close>, the
  two-argument \<^verbatim>\<open>register_fonts(dir, recurse)\<close> forwards both unchanged to the engine's
  directory registration routine and returns exactly the engine's boolean: the same
  pass-through as \<^verbatim>\<open>register_font\<close>.
\<close>

theorem register_fonts_forwards:
  "register_fonts_dir_recurse E dir recurse s = engine_register_fonts E dir recurse s
   \<and> call_static (export_font_engine E) ''register_fonts'' [PyStr dir, PyBool recurse] w =
       (map_sum EngineError PyBool (fst (engine_register_fonts E dir recurse (engine_state w))),
        w\<lparr>engine_state := snd (engine_register_fonts E dir recurse (engine_state w))\<rparr>)
   \<and> calls_logged (snd (call_static (export_font_engine (logged E)) ''register_fonts''
        [PyStr dir, PyBool recurse] v)) = calls_logged v @ [Call_register_fonts dir recurse]"
proof (intro conjI)
  show "register_fonts_dir_recurse E dir recurse s = engine_register_fonts E dir recurse s"
    by (simp add: register_fonts_dir_recurse_def)
  show "call_static (export_font_engine E) ''register_fonts'' [PyStr dir, PyBool recurse] w =
       (map_sum EngineError PyBool (fst (engine_register_fonts E dir recurse (engine_state w))),
        w\<lparr>engine_state := snd (engine_register_fonts E dir recurse (engine_state w))\<rparr>)"
    by (simp add: call_register_fonts_dir_recurse split: prod.splits)
  show "calls_logged (snd (call_static (export_font_engine (logged E)) ''register_fonts''
        [PyStr dir, PyBool recurse] v)) = calls_logged v @ [Call_register_fonts dir recurse]"
    by (rule calls_register_fonts_dir_recurse)
qed

theorem register_fonts_forwards_witness:
  "call_static (export_font_engine (reference_engine (Inr False :: string + bool)))
      ''register_fonts'' [PyStr ''fonts'', PyBool True] sample_world =
     (Inr (PyBool True),
      \<lparr>engine_state = \<lparr>disk = sample_disk, registry = [''Base'', ''Alpha'', ''Beta'']\<rparr>,
       host_heap = [Some [PyStr ''kept'']]\<rparr>)"
  using register_fonts_forwards
    [of "reference_engine (Inr False :: string + bool)" "''fonts''" True _ sample_world]
  by (simp add: reference_engine_def ref_register_fonts_def sample_world_def sample_disk_def
      scan_directory_def add_faces_def add_face_def)

subsection \<open>The enumeration of faces\<close>

text \<open>
  Claim C3, as amended. Every call to \<^verbatim>\<open>face_names()\<close> in which the engine returns its
  enumeration and every name of the enumeration is well-formed UTF-8 returns a newly
  constructed Python list whose elements are exactly the engine's strings, in the
  engine's order: the address returned held no list before the call, the list at it is
  the engine's sequence element by element (nothing sorted, dropped or merged), and every
  list object that existed before the call is as it was.
\<close>

theorem face_names_fresh_copy:
  assumes "engine_face_names E (engine_state w) = (Inr names, s')"
      and "list_all valid_utf8 names"
  shows "call_static (export_font_engine E) ''face_names'' [] w =
           (Inr (PyListRef (length (host_heap w))),
            \<lparr>engine_state = s', host_heap = host_heap w @ [Some (map PyStr names)]\<rparr>)
       \<and> list_at (host_heap w) (length (host_heap w)) = None
       \<and> list_at (host_heap w @ [Some (map PyStr names)]) (length (host_heap w)) =
           Some (map PyStr names)
       \<and> take (length (host_heap w)) (host_heap w @ [Some (map PyStr names)]) = host_heap w"
proof (intro conjI)
  show "call_static (export_font_engine E) ''face_names'' [] w =
           (Inr (PyListRef (length (host_heap w))),
            \<lparr>engine_state = s', host_heap = host_heap w @ [Some (map PyStr names)]\<rparr>)"
    using assms by (rule call_face_names_returns)
  show "list_at (host_heap w) (length (host_heap w)) = None"
    by (simp add: list_at_def)
  show "list_at (host_heap w @ [Some (map PyStr names)]) (length (host_heap w)) =
           Some (map PyStr names)"
    by (rule list_at_new_list)
  show "take (length (host_heap w)) (host_heap w @ [Some (map PyStr names)]) = host_heap w"
    by simp
qed

theorem face_names_fresh_copy_witness:
  "engine_face_names (reference_engine (Inr False :: string + bool))
      \<lparr>disk = sample_disk, registry = [''Zed'', [CHR 0xC3, CHR 0xA9], ''Alpha'', ''Zed'']\<rparr> =
     (Inr [''Zed'', [CHR 0xC3, CHR 0xA9], ''Alpha'', ''Zed''],
      \<lparr>disk = sample_disk, registry = [''Zed'', [CHR 0xC3, CHR 0xA9], ''Alpha'', ''Zed'']\<rparr>)
   \<and> list_all valid_utf8 [''Zed'', [CHR 0xC3, CHR 0xA9], ''Alpha'', ''Zed'']
   \<and> call_static (export_font_engine (reference_engine (Inr False :: string + bool))) ''face_names'' []
        \<lparr>engine_state =
           \<lparr>disk = sample_disk, registry = [''Zed'', [CHR 0xC3, CHR 0xA9], ''Alpha'', ''Zed'']\<rparr>,
         host_heap = [Some [PyStr ''kept'']]\<rparr> =
       (Inr (PyListRef 1),
        \<lparr>engine_state =
           \<lparr>disk = sample_disk, registry = [''Zed'', [CHR 0xC3, CHR 0xA9], ''Alpha'', ''Zed'']\<rparr>,
         host_heap = [Some [PyStr ''kept''],
           Some [PyStr ''Zed'', PyStr [CHR 0xC3, CHR 0xA9], PyStr ''Alpha'', PyStr ''Zed'']]\<rparr>)"
proof -
  let ?s = "\<lparr>disk = sample_disk, registry = [''Zed'', [CHR 0xC3, CHR 0xA9], ''Alpha'', ''Zed'']\<rparr>"
  have en: "engine_face_names (reference_engine (Inr False :: string + bool))
      (engine_state \<lparr>engine_state = ?s, host_heap = [Some [PyStr ''kept'']]\<rparr>) =
     (Inr [''Zed'', [CHR 0xC3, CHR 0xA9], ''Alpha'', ''Zed''], ?s)"
    by (simp add: reference_engine_def ref_face_names_def)
  have valid: "list_all valid_utf8 [''Zed'', [CHR 0xC3, CHR 0xA9], ''Alpha'', ''Zed'']"
    by (simp add: byte_in_def)
  from face_names_fresh_copy [OF en valid] en valid show ?thesis by simp
qed

text \<open>
  The claim as first stated (every call returns such a list) fails when the engine returns
  a name that is not well-formed UTF-8: the engine returns the two names, the conversion of
  the second throws in the loop, and the call raises \<^verbatim>\<open>UnicodeDecodeError\<close>; the list
  under construction is destroyed and none is returned.
\<close>

theorem face_names_fresh_copy_counterexample:
  "engine_face_names (reference_engine (Inr False :: string + bool))
      \<lparr>disk = sample_disk, registry = [''Base'', [CHR 0xFF, CHR 0xFE]]\<rparr> =
     (Inr [''Base'', [CHR 0xFF, CHR 0xFE]],
      \<lparr>disk = sample_disk, registry = [''Base'', [CHR 0xFF, CHR 0xFE]]\<rparr>)
   \<and> call_static (export_font_engine (reference_engine (Inr False :: string + bool))) ''face_names'' []
        \<lparr>engine_state = \<lparr>disk = sample_disk, registry = [''Base'', [CHR 0xFF, CHR 0xFE]]\<rparr>,
         host_heap = [Some [PyStr ''kept'']]\<rparr> =
       (Inl UnicodeDecodeError,
        \<lparr>engine_state = \<lparr>disk = sample_disk, registry = [''Base'', [CHR 0xFF, CHR 0xFE]]\<rparr>,
         host_heap = [Some [PyStr ''kept''], None]\<rparr>)"
proof -
  let ?s = "\<lparr>disk = sample_disk, registry = [''Base'', [CHR 0xFF, CHR 0xFE]]\<rparr>"
  have en: "engine_face_names (reference_engine (Inr False :: string + bool))
      (engine_state \<lparr>engine_state = ?s, host_heap = [Some [PyStr ''kept'']]\<rparr>) =
     (Inr [''Base'', [CHR 0xFF, CHR 0xFE]], ?s)"
    by (simp add: reference_engine_def ref_face_names_def)
  have bad: "\<not> list_all valid_utf8 [''Base'', [CHR 0xFF, CHR 0xFE]]"
    by (simp add: byte_in_def)
  from call_face_names_undecodable [OF en bad] en show ?thesis by simp
qed

subsection \<open>Failures\<close>

text \<open>
  Claim C4, as amended. For every call to \<^verbatim>\<open>register_font\<close> or \<^verbatim>\<open>register_fonts\<close>
  (either arity), the call raises \<open>x\<close> if and only if the engine threw some \<open>e\<close> in it
  and \<open>x\<close> is that \<open>e\<close> carried across the boundary with its content. A call to
  \<^verbatim>\<open>face_names\<close> raises \<open>x\<close> if and only if either the engine threw some \<open>e\<close>
  and \<open>x\<close> is that \<open>e\<close>, or the engine returned and one of the names it returned is
  not well-formed UTF-8 and \<open>x\<close> is \<^verbatim>\<open>UnicodeDecodeError\<close>. In every such call,
  failing or not, the engine is called exactly once: nothing is retried, recovered or
  suppressed.
\<close>

theorem engine_failures_surface:
  "(fst (call_static (export_font_engine E) ''register_font'' [PyStr file_name] w) = Inl x
      \<longleftrightarrow> (\<exists>e. x = EngineError e \<and> fst (engine_register_font E file_name (engine_state w)) = Inl e))
   \<and> (fst (call_static (export_font_engine E) ''register_fonts'' [PyStr dir] w) = Inl x
      \<longleftrightarrow> (\<exists>e. x = EngineError e \<and> fst (engine_register_fonts E dir False (engine_state w)) = Inl e))
   \<and> (fst (call_static (export_font_engine E) ''register_fonts'' [PyStr dir, PyBool recurse] w) = Inl x
      \<longleftrightarrow> (\<exists>e. x = EngineError e \<and> fst (engine_register_fonts E dir recurse (engine_state w)) = Inl e))
   \<and> (fst (call_static (export_font_engine E) ''face_names'' [] w) = Inl x
      \<longleftrightarrow> (\<exists>e. x = EngineError e \<and> fst (engine_face_names E (engine_state w)) = Inl e)
        \<or> (x = UnicodeDecodeError
            \<and> (\<exists>names. fst (engine_face_names E (engine_state w)) = Inr names
                  \<and> \<not> list_all valid_utf8 names)))
   \<and> calls_logged (snd (call_static (export_font_engine (logged E)) ''register_font''
        [PyStr file_name] v)) = calls_logged v @ [Call_register_font file_name]
   \<and> calls_logged (snd (call_static (export_font_engine (logged E)) ''register_fonts''
        [PyStr dir] v)) = calls_logged v @ [Call_register_fonts dir False]
   \<and> calls_logged (snd (call_static (export_font_engine (logged E)) ''register_fonts''
        [PyStr dir, PyBool recurse] v)) = calls_logged v @ [Call_register_fonts dir recurse]
   \<and> calls_logged (snd (call_static (export_font_engine (logged E)) ''face_names'' [] v)) =
        calls_logged v @ [Call_face_names]"
proof (intro conjI)
  show "fst (call_static (export_font_engine E) ''register_font'' [PyStr file_name] w) = Inl x
      \<longleftrightarrow> (\<exists>e. x = EngineError e \<and> fst (engine_register_font E file_name (engine_state w)) = Inl e)"
    by (simp add: call_register_font map_sum_Inl_iff split: prod.splits)
  show "fst (call_static (export_font_engine E) ''register_fonts'' [PyStr dir] w) = Inl x
      \<longleftrightarrow> (\<exists>e. x = EngineError e \<and> fst (engine_register_fonts E dir False (engine_state w)) = Inl e)"
    by (simp add: call_register_fonts_dir map_sum_Inl_iff split: prod.splits)
  show "fst (call_static (export_font_engine E) ''register_fonts'' [PyStr dir, PyBool recurse] w) = Inl x
      \<longleftrightarrow> (\<exists>e. x = EngineError e \<and> fst (engine_register_fonts E dir recurse (engine_state w)) = Inl e)"
    by (simp add: call_register_fonts_dir_recurse map_sum_Inl_iff split: prod.splits)
  show "fst (call_static (export_font_engine E) ''face_names'' [] w) = Inl x
      \<longleftrightarrow> (\<exists>e. x = EngineError e \<and> fst (engine_face_names E (engine_state w)) = Inl e)
        \<or> (x = UnicodeDecodeError
            \<and> (\<exists>names. fst (engine_face_names E (engine_state w)) = Inr names
                  \<and> \<not> list_all valid_utf8 names))"
  proof (cases "fst (engine_face_names E (engine_state w))")
    case (Inl e)
    then show ?thesis by (auto simp: fst_call_face_names)
  next
    case (Inr names)
    then show ?thesis by (auto simp: fst_call_face_names)
  qed
  show "calls_logged (snd (call_static (export_font_engine (logged E)) ''register_font''
        [PyStr file_name] v)) = calls_logged v @ [Call_register_font file_name]"
    by (rule calls_register_font)
  show "calls_logged (snd (call_static (export_font_engine (logged E)) ''register_fonts''
        [PyStr dir] v)) = calls_logged v @ [Call_register_fonts dir False]"
    by (rule calls_register_fonts_dir)
  show "calls_logged (snd (call_static (export_font_engine (logged E)) ''register_fonts''
        [PyStr dir, PyBool recurse] v)) = calls_logged v @ [Call_register_fonts dir recurse]"
    by (rule calls_register_fonts_dir_recurse)
  show "calls_logged (snd (call_static (export_font_engine (logged E)) ''face_names'' [] v)) =
        calls_logged v @ [Call_face_names]"
    by (rule calls_face_names)
qed

theorem engine_failures_surface_witness:
  "fst (engine_register_font (reference_engine (Inl ''cannot open font'')) ''missing.ttf''
          (engine_state sample_world)) = Inl ''cannot open font''
   \<and> fst (call_static (export_font_engine (reference_engine (Inl ''cannot open font'')))
          ''register_font'' [PyStr ''missing.ttf''] sample_world) =
       Inl (EngineError ''cannot open font'')
   \<and> fst (call_static (export_font_engine (reference_engine (Inl ''cannot open font'')))
          ''register_fonts'' [PyStr ''fonts'', PyBool True] sample_world) \<noteq>
       Inl (EngineError ''cannot open font'')
   \<and> fst (engine_face_names (reference_engine (Inl ''cannot open font''))
          \<lparr>disk = sample_disk, registry = [''Alpha'', [CHR 0xC3, CHR 0x28]]\<rparr>) =
       Inr [''Alpha'', [CHR 0xC3, CHR 0x28]]
   \<and> \<not> list_all valid_utf8 [''Alpha'', [CHR 0xC3, CHR 0x28]]
   \<and> fst (call_static (export_font_engine (reference_engine (Inl ''cannot open font'')))
          ''face_names'' []
          \<lparr>engine_state = \<lparr>disk = sample_disk, registry = [''Alpha'', [CHR 0xC3, CHR 0x28]]\<rparr>,
           host_heap = []\<rparr>) = Inl UnicodeDecodeError"
proof -
  let ?E = "reference_engine (Inl ''cannot open font'')"
  let ?bad = "\<lparr>disk = sample_disk, registry = [''Alpha'', [CHR 0xC3, CHR 0x28]]\<rparr>"
  let ?w = "\<lparr>engine_state = ?bad, host_heap = []\<rparr>"
  have en: "fst (engine_register_font ?E ''missing.ttf'' (engine_state sample_world)) =
      Inl ''cannot open font''"
    by (simp add: reference_engine_def ref_register_font_def sample_world_def sample_disk_def)
  have ok: "fst (engine_register_fonts ?E ''fonts'' True (engine_state sample_world)) = Inr True"
    by (simp add: reference_engine_def ref_register_fonts_def sample_world_def sample_disk_def
        scan_directory_def)
  have returned: "fst (engine_face_names ?E (engine_state ?w)) = Inr [''Alpha'', [CHR 0xC3, CHR 0x28]]"
    by (simp add: reference_engine_def ref_face_names_def)
  have undecodable: "\<not> list_all valid_utf8 [''Alpha'', [CHR 0xC3, CHR 0x28]]"
    by (simp add: byte_in_def)
  note at_sample = engine_failures_surface
    [where E = ?E and file_name = "''missing.ttf''" and w = sample_world
       and x = "EngineError ''cannot open font''" and dir = "''fonts''" and recurse = True]
  note at_bad = engine_failures_surface [where E = ?E and w = ?w and x = UnicodeDecodeError]
  have one: "fst (call_static (export_font_engine ?E) ''register_font'' [PyStr ''missing.ttf'']
      sample_world) = Inl (EngineError ''cannot open font'')"
    using at_sample [THEN conjunct1] en by simp
  have three: "fst (call_static (export_font_engine ?E) ''register_fonts''
      [PyStr ''fonts'', PyBool True] sample_world) \<noteq> Inl (EngineError ''cannot open font'')"
    using at_sample [THEN conjunct2, THEN conjunct2, THEN conjunct1] ok by simp
  have four: "fst (call_static (export_font_engine ?E) ''face_names'' [] ?w) = Inl UnicodeDecodeError"
    by (rule iffD2 [OF at_bad [THEN conjunct2, THEN conjunct2, THEN conjunct2, THEN conjunct1]])
      (use returned undecodable in blast)
  have returned': "fst (engine_face_names ?E ?bad) = Inr [''Alpha'', [CHR 0xC3, CHR 0x28]]"
    using returned by simp
  show ?thesis
    by (intro conjI) (rule en one three returned' undecodable four)+
qed

text \<open>
  The claim as first stated (a call raises only if the engine raises) fails for
  \<^verbatim>\<open>face_names\<close>: here the engine returns normally, with one name that is not
  well-formed UTF-8, and the call raises \<^verbatim>\<open>UnicodeDecodeError\<close>.
\<close>

theorem engine_failures_surface_counterexample:
  "fst (engine_face_names (reference_engine (Inr False :: string + bool))
          \<lparr>disk = [], registry = [[CHR 0xFF, CHR 0xFE]]\<rparr>) = Inr [[CHR 0xFF, CHR 0xFE]]
   \<and> fst (call_static (export_font_engine (reference_engine (Inr False :: string + bool)))
          ''face_names'' []
          \<lparr>engine_state = \<lparr>disk = [], registry = [[CHR 0xFF, CHR 0xFE]]\<rparr>, host_heap = []\<rparr>) =
       Inl UnicodeDecodeError"
proof -
  let ?s = "\<lparr>disk = [], registry = [[CHR 0xFF, CHR 0xFE]]\<rparr>"
  have en: "engine_face_names (reference_engine (Inr False :: string + bool))
      (engine_state \<lparr>engine_state = ?s, host_heap = []\<rparr>) = (Inr [[CHR 0xFF, CHR 0xFE]], ?s)"
    by (simp add: reference_engine_def ref_face_names_def)
  have bad: "\<not> list_all valid_utf8 [[CHR 0xFF, CHR 0xFE]]"
    by (simp add: byte_in_def)
  from call_face_names_undecodable [OF en bad] en show ?thesis by simp
qed

text \<open>
  Claim C5, as amended. For every path \<open>P\<close>, naming an existing file or not,
  \<^verbatim>\<open>register_font(P)\<close> surfaces a failure exactly when the engine throws for \<open>P\<close>, and
  returns false exactly when the engine returns false for \<open>P\<close>: the binding never
  turns a false return into a failure.
\<close>

theorem register_font_missing_path:
  "(isl (fst (call_static (export_font_engine E) ''register_font'' [PyStr P] w))
      \<longleftrightarrow> isl (fst (engine_register_font E P (engine_state w))))
   \<and> (fst (call_static (export_font_engine E) ''register_font'' [PyStr P] w) = Inr (PyBool False)
      \<longleftrightarrow> fst (engine_register_font E P (engine_state w)) = Inr False)"
proof -
  obtain r s' where en: "engine_register_font E P (engine_state w) = (r, s')"
    by (cases "engine_register_font E P (engine_state w)")
  then show ?thesis
    by (cases r) (simp_all add: call_register_font)
qed

theorem register_font_missing_path_witness:
  "isl (fst (call_static (export_font_engine (reference_engine (Inl ''cannot open font'')))
          ''register_font'' [PyStr ''missing.ttf''] sample_world))
   \<and> fst (call_static (export_font_engine (reference_engine (Inr False :: string + bool)))
          ''register_font'' [PyStr ''missing.ttf''] sample_world) = Inr (PyBool False)"
proof -
  have thrown: "isl (fst (engine_register_font (reference_engine (Inl ''cannot open font''))
      ''missing.ttf'' (engine_state sample_world)))"
    by (simp add: reference_engine_def ref_register_font_def sample_world_def sample_disk_def)
  have returned: "fst (engine_register_font (reference_engine (Inr False :: string + bool))
      ''missing.ttf'' (engine_state sample_world)) = Inr False"
    by (simp add: reference_engine_def ref_register_font_def sample_world_def sample_disk_def)
  from register_font_missing_path
      [of "reference_engine (Inl ''cannot open font'')" "''missing.ttf''" sample_world]
    register_font_missing_path
      [of "reference_engine (Inr False :: string + bool)" "''missing.ttf''" sample_world]
    thrown returned
  show ?thesis by simp
qed

text \<open>
  The claim as first stated (a path that names no existing file always surfaces a
  failure) fails with an engine that answers such a path by returning false:
  \<open>missing.ttf\<close> is not on the disk, and the call returns \<open>False\<close> and changes nothing.
\<close>

theorem register_font_missing_path_counterexample:
  "map_of (disk (engine_state sample_world)) ''missing.ttf'' = None
   \<and> call_static (export_font_engine (reference_engine (Inr False :: string + bool)))
        ''register_font'' [PyStr ''missing.ttf''] sample_world =
       (Inr (PyBool False), sample_world)"
  by (simp add: call_register_font reference_engine_def ref_register_font_def sample_world_def
      sample_disk_def)

subsection \<open>The reference engine behind the binding\<close>




text \<open>
  Claim C7, as amended. For every font file path \<open>P\<close> whose file contains a face
  \<open>face\<close> (the claim's "TestFace"), if \<^verbatim>\<open>register_font(P)\<close> returns true and every
  name registered in the engine after it is well-formed UTF-8, then the list a following
  \<^verbatim>\<open>face_names()\<close> returns includes \<open>face\<close>. Stated for the reference engine.
\<close>

theorem registered_face_is_listed:
  assumes on_disk: "map_of (disk (engine_state w)) P = Some (FontFile faces)"
      and face: "face \<in> set faces"
      and registered: "call_static (export_font_engine (reference_engine no_font)) ''register_font''
             [PyStr P] w = (Inr (PyBool True), w1)"
      and valid: "list_all valid_utf8 (registry (engine_state w1))"
      and listed: "call_static (export_font_engine (reference_engine no_font)) ''face_names'' [] w1 =
             (r, w2)"
  shows "\<exists>a names. r = Inr (PyListRef a) \<and> list_at (host_heap w2) a = Some names
           \<and> PyStr face \<in> set names"
proof -
  let ?E = "reference_engine no_font"
  have "engine_register_font ?E P (engine_state w) =
      (Inr (faces \<noteq> []), (engine_state w)\<lparr>registry := add_faces faces (registry (engine_state w))\<rparr>)"
    using on_disk by (simp add: reference_engine_def ref_register_font_def)
  with registered
  have w1: "engine_state w1 =
      (engine_state w)\<lparr>registry := add_faces faces (registry (engine_state w))\<rparr>"
    by (auto simp: call_register_font)
  let ?reg = "registry (engine_state w1)"
  have read: "engine_face_names ?E (engine_state w1) = (Inr ?reg, engine_state w1)"
    by (simp add: reference_engine_def ref_face_names_def)
  from call_face_names_returns [OF read valid] listed
  have r: "r = Inr (PyListRef (length (host_heap w1)))"
    and w2: "host_heap w2 = host_heap w1 @ [Some (map PyStr ?reg)]"
    by auto
  have "list_at (host_heap w2) (length (host_heap w1)) = Some (map PyStr ?reg)"
    using w2 by (simp add: list_at_def)
  moreover have "PyStr face \<in> set (map PyStr ?reg)"
    using face by (simp add: w1 set_add_faces)
  ultimately show ?thesis using r by blast
qed

theorem registered_face_is_listed_witness:
  "map_of (disk (engine_state sample_world)) ''test.ttf'' = Some (FontFile [''TestFace''])
   \<and> ''TestFace'' \<in> set [''TestFace'']
   \<and> call_static (export_font_engine (reference_engine (Inr False :: string + bool)))
        ''register_font'' [PyStr ''test.ttf''] sample_world =
      (Inr (PyBool True),
       \<lparr>engine_state = \<lparr>disk = sample_disk, registry = [''Base'', ''TestFace'']\<rparr>,
        host_heap = [Some [PyStr ''kept'']]\<rparr>)
   \<and> list_all valid_utf8 [''Base'', ''TestFace'']
   \<and> call_static (export_font_engine (reference_engine (Inr False :: string + bool)))
        ''face_names'' []
        \<lparr>engine_state = \<lparr>disk = sample_disk, registry = [''Base'', ''TestFace'']\<rparr>,
         host_heap = [Some [PyStr ''kept'']]\<rparr> =
      (Inr (PyListRef 1),
       \<lparr>engine_state = \<lparr>disk = sample_disk, registry = [''Base'', ''TestFace'']\<rparr>,
        host_heap = [Some [PyStr ''kept''], Some [PyStr ''Base'', PyStr ''TestFace'']]\<rparr>)
   \<and> list_at [Some [PyStr ''kept''], Some [PyStr ''Base'', PyStr ''TestFace'']] 1 =
        Some [PyStr ''Base'', PyStr ''TestFace'']
   \<and> PyStr ''TestFace'' \<in> set [PyStr ''Base'', PyStr ''TestFace'']"
proof -
  let ?E = "reference_engine (Inr False :: string + bool)"
  let ?s1 = "\<lparr>disk = sample_disk, registry = [''Base'', ''TestFace'']\<rparr>"
  let ?w1 = "\<lparr>engine_state = ?s1, host_heap = [Some [PyStr ''kept'']]\<rparr>"
  let ?w2 = "\<lparr>engine_state = ?s1,
    host_heap = [Some [PyStr ''kept''], Some [PyStr ''Base'', PyStr ''TestFace'']]\<rparr>"
  have on_disk: "map_of (disk (engine_state sample_world)) ''test.ttf'' =
      Some (FontFile [''TestFace''])"
    by (simp add: sample_world_def sample_disk_def)
  have face: "''TestFace'' \<in> set [''TestFace'']" by simp
  have registered: "call_static (export_font_engine ?E) ''register_font'' [PyStr ''test.ttf'']
      sample_world = (Inr (PyBool True), ?w1)"
    by (simp add: call_register_font reference_engine_def ref_register_font_def sample_world_def
        sample_disk_def add_faces_def add_face_def)
  have names: "list_all valid_utf8 [''Base'', ''TestFace'']"
    by (simp add: byte_in_def)
  then have valid: "list_all valid_utf8 (registry (engine_state ?w1))"
    by simp
  have read: "engine_face_names ?E (engine_state ?w1) = (Inr [''Base'', ''TestFace''], ?s1)"
    by (simp add: reference_engine_def ref_face_names_def)
  have listed: "call_static (export_font_engine ?E) ''face_names'' [] ?w1 =
      (Inr (PyListRef 1), ?w2)"
    using call_face_names_returns [OF read names] by simp
  from registered_face_is_listed [OF on_disk face registered valid listed]
  obtain a names where "(Inr (PyListRef 1) :: string py_error + py_value) = Inr (PyListRef a)"
    and "list_at (host_heap ?w2) a = Some names"
    and "PyStr ''TestFace'' \<in> set names"
    by blast
  then have "list_at [Some [PyStr ''kept''], Some [PyStr ''Base'', PyStr ''TestFace'']] 1 =
        Some [PyStr ''Base'', PyStr ''TestFace'']
     \<and> PyStr ''TestFace'' \<in> set [PyStr ''Base'', PyStr ''TestFace'']"
    by (simp add: list_at_def)
  with on_disk face registered names listed show ?thesis by blast
qed

text \<open>
  The claim as first stated fails for a font file that contains "TestFace" beside a face
  whose name is not well-formed UTF-8: the registration returns true, and the following
  \<^verbatim>\<open>face_names()\<close> raises \<^verbatim>\<open>UnicodeDecodeError\<close> and returns no list.
\<close>

theorem registered_face_is_listed_counterexample:
  "map_of [(''type1.pfb'', FontFile [''TestFace'', [CHR 0xFF, CHR 0xFE]])] ''type1.pfb'' =
      Some (FontFile [''TestFace'', [CHR 0xFF, CHR 0xFE]])
   \<and> ''TestFace'' \<in> set [''TestFace'', [CHR 0xFF, CHR 0xFE]]
   \<and> call_static (export_font_engine (reference_engine (Inr False :: string + bool)))
        ''register_font'' [PyStr ''type1.pfb'']
        \<lparr>engine_state =
           \<lparr>disk = [(''type1.pfb'', FontFile [''TestFace'', [CHR 0xFF, CHR 0xFE]])], registry = []\<rparr>,
         host_heap = []\<rparr> =
      (Inr (PyBool True),
       \<lparr>engine_state =
          \<lparr>disk = [(''type1.pfb'', FontFile [''TestFace'', [CHR 0xFF, CHR 0xFE]])],
           registry = [''TestFace'', [CHR 0xFF, CHR 0xFE]]\<rparr>,
        host_heap = []\<rparr>)
   \<and> call_static (export_font_engine (reference_engine (Inr False :: string + bool)))
        ''face_names'' []
        \<lparr>engine_state =
           \<lparr>disk = [(''type1.pfb'', FontFile [''TestFace'', [CHR 0xFF, CHR 0xFE]])],
            registry = [''TestFace'', [CHR 0xFF, CHR 0xFE]]\<rparr>,
         host_heap = []\<rparr> =
      (Inl UnicodeDecodeError,
       \<lparr>engine_state =
          \<lparr>disk = [(''type1.pfb'', FontFile [''TestFace'', [CHR 0xFF, CHR 0xFE]])],
           registry = [''TestFace'', [CHR 0xFF, CHR 0xFE]]\<rparr>,
        host_heap = [None]\<rparr>)"
proof -
  let ?E = "reference_engine (Inr False :: string + bool)"
  let ?disk = "[(''type1.pfb'', FontFile [''TestFace'', [CHR 0xFF, CHR 0xFE]])]"
  let ?s1 = "\<lparr>disk = ?disk, registry = [''TestFace'', [CHR 0xFF, CHR 0xFE]]\<rparr>"
  have registered: "call_static (export_font_engine ?E) ''register_font'' [PyStr ''type1.pfb'']
      \<lparr>engine_state = \<lparr>disk = ?disk, registry = []\<rparr>, host_heap = []\<rparr> =
      (Inr (PyBool True), \<lparr>engine_state = ?s1, host_heap = []\<rparr>)"
    by (simp add: call_register_font reference_engine_def ref_register_font_def add_faces_def
        add_face_def)
  have bad: "\<not> list_all valid_utf8 [''TestFace'', [CHR 0xFF, CHR 0xFE]]"
    by (simp add: byte_in_def)
  have read: "engine_face_names ?E (engine_state \<lparr>engine_state = ?s1, host_heap = []\<rparr>) =
      (Inr [''TestFace'', [CHR 0xFF, CHR 0xFE]], ?s1)"
    by (simp add: reference_engine_def ref_face_names_def)
  from call_face_names_undecodable [OF read bad] registered show ?thesis by simp
qed

text \<open>
  Claim C8. For every directory \<open>D\<close>, \<^verbatim>\<open>register_fonts(D, true)\<close> registers at least
  as many faces as \<^verbatim>\<open>register_fonts(D, false)\<close> from the same state: the faces
  registered after the call without recursion are a subset of those after the call with
  recursion, and so are the faces each call added. Stated for the reference engine.
\<close>

theorem recursion_registers_superset:
  assumes flat: "call_static (export_font_engine (reference_engine no_font)) ''register_fonts''
             [PyStr D, PyBool False] w = (r0, w0)"
      and deep: "call_static (export_font_engine (reference_engine no_font)) ''register_fonts''
             [PyStr D, PyBool True] w = (r1, w1)"
  shows "set (registry (engine_state w0)) \<subseteq> set (registry (engine_state w1))
       \<and> card (set (registry (engine_state w0))) \<le> card (set (registry (engine_state w1)))
       \<and> set (registry (engine_state w0)) - set (registry (engine_state w))
           \<subseteq> set (registry (engine_state w1)) - set (registry (engine_state w))"
proof -
  let ?E = "reference_engine no_font"
  let ?s = "engine_state w"
  have s0: "engine_state w0 = snd (ref_register_fonts no_font D False ?s)"
    using flat by (auto simp: call_register_fonts_dir_recurse reference_engine_def split: prod.splits)
  have s1: "engine_state w1 = snd (ref_register_fonts no_font D True ?s)"
    using deep by (auto simp: call_register_fonts_dir_recurse reference_engine_def split: prod.splits)
  have sub: "set (registry (engine_state w0)) \<subseteq> set (registry (engine_state w1))"
  proof (cases "map_of (disk ?s) D")
    case None
    then show ?thesis by (simp add: s0 s1 ref_register_fonts_def)
  next
    case (Some node)
    show ?thesis
    proof (cases node)
      case (Directory entries)
      with Some scan_directory_recurse [of entries] show ?thesis
        by (auto simp: s0 s1 ref_register_fonts_def set_add_faces)
    qed (use Some in \<open>simp_all add: s0 s1 ref_register_fonts_def\<close>)
  qed
  then have "card (set (registry (engine_state w0))) \<le> card (set (registry (engine_state w1)))"
    by (simp add: card_mono)
  with sub show ?thesis by blast
qed

theorem recursion_registers_superset_witness:
  "call_static (export_font_engine (reference_engine (Inr False :: string + bool)))
      ''register_fonts'' [PyStr ''fonts'', PyBool False] sample_world =
     (Inr (PyBool True),
      \<lparr>engine_state = \<lparr>disk = sample_disk, registry = [''Base'', ''Alpha'']\<rparr>,
       host_heap = [Some [PyStr ''kept'']]\<rparr>)
   \<and> call_static (export_font_engine (reference_engine (Inr False :: string + bool)))
      ''register_fonts'' [PyStr ''fonts'', PyBool True] sample_world =
     (Inr (PyBool True),
      \<lparr>engine_state = \<lparr>disk = sample_disk, registry = [''Base'', ''Alpha'', ''Beta'']\<rparr>,
       host_heap = [Some [PyStr ''kept'']]\<rparr>)
   \<and> set [''Base'', ''Alpha''] \<subseteq> set [''Base'', ''Alpha'', ''Beta'']
   \<and> card (set [''Base'', ''Alpha'']) \<le> card (set [''Base'', ''Alpha'', ''Beta''])"
proof -
  let ?E = "reference_engine (Inr False :: string + bool)"
  have flat: "call_static (export_font_engine ?E) ''register_fonts'' [PyStr ''fonts'', PyBool False]
      sample_world =
     (Inr (PyBool True),
      \<lparr>engine_state = \<lparr>disk = sample_disk, registry = [''Base'', ''Alpha'']\<rparr>,
       host_heap = [Some [PyStr ''kept'']]\<rparr>)"
    by (simp add: call_register_fonts_dir_recurse reference_engine_def ref_register_fonts_def
        sample_world_def sample_disk_def scan_directory_def add_faces_def add_face_def)
  have deep: "call_static (export_font_engine ?E) ''register_fonts'' [PyStr ''fonts'', PyBool True]
      sample_world =
     (Inr (PyBool True),
      \<lparr>engine_state = \<lparr>disk = sample_disk, registry = [''Base'', ''Alpha'', ''Beta'']\<rparr>,
       host_heap = [Some [PyStr ''kept'']]\<rparr>)"
    by (simp add: call_register_fonts_dir_recurse reference_engine_def ref_register_fonts_def
        sample_world_def sample_disk_def scan_directory_def add_faces_def add_face_def)
  from recursion_registers_superset [OF flat deep]
  have "set [''Base'', ''Alpha''] \<subseteq> set [''Base'', ''Alpha'', ''Beta'']
     \<and> card (set [''Base'', ''Alpha'']) \<le> card (set [''Base'', ''Alpha'', ''Beta''])"
    by simp
  with flat deep show ?thesis by blast
qed

subsection \<open>The exported surface\<close>

text \<open>
  Claim C10. The class is named \<^verbatim>\<open>FontEngine\<close>; no constructor is bound, so no
  arguments construct an instance; its definitions are exactly \<^verbatim>\<open>register_font\<close>
  (one string), \<^verbatim>\<open>register_fonts\<close> (one string; one string and a boolean) and
  \<^verbatim>\<open>face_names\<close> (no argument), all static; any other name is not an attribute,
  \<^verbatim>\<open>register_fonts\<close> takes one or two arguments only, and each of the four call
  shapes is answered on the class itself, without an instance.
\<close>

theorem font_engine_surface:
  "class_name (export_font_engine E) = ''FontEngine''
   \<and> class_inits (export_font_engine E) = []
   \<and> construct (export_font_engine E) args = None
   \<and> map (\<lambda>d. (def_name d, def_kind d, params (def_impl d))) (class_defs (export_font_engine E)) =
       [(''register_font'', StaticMethod, [StdString]),
        (''register_fonts'', StaticMethod, [StdString]),
        (''register_fonts'', StaticMethod, [StdString, Bool]),
        (''face_names'', StaticMethod, [])]
   \<and> (name \<notin> {''register_font'', ''register_fonts'', ''face_names''} \<longrightarrow>
        call_static (export_font_engine E) name args w = (Inl AttributeError, w))
   \<and> (length args \<notin> {1, 2} \<longrightarrow>
        call_static (export_font_engine E) ''register_fonts'' args w = (Inl TypeError, w))
   \<and> fst (call_static (export_font_engine E) ''register_font'' [PyStr file_name] w)
        \<notin> {Inl TypeError, Inl AttributeError}
   \<and> fst (call_static (export_font_engine E) ''register_fonts'' [PyStr dir] w)
        \<notin> {Inl TypeError, Inl AttributeError}
   \<and> fst (call_static (export_font_engine E) ''register_fonts'' [PyStr dir, PyBool recurse] w)
        \<notin> {Inl TypeError, Inl AttributeError}
   \<and> fst (call_static (export_font_engine E) ''face_names'' [] w)
        \<notin> {Inl TypeError, Inl AttributeError}"
proof (intro conjI impI)
  show "class_name (export_font_engine E) = ''FontEngine''"
    by (simp add: export_font_engine_def def_static_def new_class_def)
  show inits: "class_inits (export_font_engine E) = []"
    by (simp add: export_font_engine_def def_static_def new_class_def)
  show "construct (export_font_engine E) args = None"
    by (simp add: construct_def inits)
  show "map (\<lambda>d. (def_name d, def_kind d, params (def_impl d))) (class_defs (export_font_engine E)) =
       [(''register_font'', StaticMethod, [StdString]),
        (''register_fonts'', StaticMethod, [StdString]),
        (''register_fonts'', StaticMethod, [StdString, Bool]),
        (''face_names'', StaticMethod, [])]"
    by (simp add: export_font_engine_defs)
  show "call_static (export_font_engine E) name args w = (Inl AttributeError, w)"
    if "name \<notin> {''register_font'', ''register_fonts'', ''face_names''}"
    using that by (simp add: call_static_def overloads_other)
  show "call_static (export_font_engine E) ''register_fonts'' args w = (Inl TypeError, w)"
    if "length args \<notin> {1, 2}"
    using that by (simp add: register_fonts_wrong_arity)
  show "fst (call_static (export_font_engine E) ''register_font'' [PyStr file_name] w)
        \<notin> {Inl TypeError, Inl AttributeError}"
    by (simp add: call_register_font map_sum_engine_error split: prod.splits)
  show "fst (call_static (export_font_engine E) ''register_fonts'' [PyStr dir] w)
        \<notin> {Inl TypeError, Inl AttributeError}"
    by (simp add: call_register_fonts_dir map_sum_engine_error split: prod.splits)
  show "fst (call_static (export_font_engine E) ''register_fonts'' [PyStr dir, PyBool recurse] w)
        \<notin> {Inl TypeError, Inl AttributeError}"
    by (simp add: call_register_fonts_dir_recurse map_sum_engine_error split: prod.splits)
  show "fst (call_static (export_font_engine E) ''face_names'' [] w)
        \<notin> {Inl TypeError, Inl AttributeError}"
    by (simp add: fst_call_face_names split: sum.splits)
qed

theorem font_engine_surface_witness:
  "''unregister_font'' \<notin> {''register_font'', ''register_fonts'', ''face_names''}
   \<and> call_static (export_font_engine (reference_engine (Inr False :: string + bool)))
        ''unregister_font'' [PyStr ''test.ttf''] sample_world = (Inl AttributeError, sample_world)
   \<and> length [PyStr ''fonts'', PyBool True, PyBool True] \<notin> {1, 2}
   \<and> call_static (export_font_engine (reference_engine (Inr False :: string + bool)))
        ''register_fonts'' [PyStr ''fonts'', PyBool True, PyBool True] sample_world =
       (Inl TypeError, sample_world)
   \<and> construct (export_font_engine (reference_engine (Inr False :: string + bool))) [] = None"
proof -
  have name: "''unregister_font'' \<notin> {''register_font'', ''register_fonts'', ''face_names''}"
    by simp
  have arity: "length [PyStr ''fonts'', PyBool True, PyBool True] \<notin> {1, 2}"
    by simp
  from font_engine_surface
    [where E = "reference_engine (Inr False :: string + bool)" and name = "''unregister_font''"
       and args = "[PyStr ''test.ttf'']" and w = sample_world]
    font_engine_surface
    [where E = "reference_engine (Inr False :: string + bool)" and name = "''register_fonts''"
       and args = "[PyStr ''fonts'', PyBool True, PyBool True]" and w = sample_world]
    font_engine_surface
    [where E = "reference_engine (Inr False :: string + bool)" and args = "[]"]
    name arity
  show ?thesis by simp
qed

end
